theory Spec2Isabelle
  imports Main
begin

section \<open>Go values and library calls used by jenkins.go\<close>

text \<open>
  A Go call either returns or panics. A panic unwinds the callers; deferred calls still run.
\<close>

datatype 'a outcome = Panic string | Return 'a

text \<open>
  A Go \<open>error\<close> value, tagged with the call that produced it: \<open>http.NewRequest\<close>,
  \<open>http.DefaultClient.Do\<close>, \<open>ioutil.ReadAll\<close>, \<open>json.Unmarshal\<close> or
  \<open>xml.Unmarshal\<close>, and \<open>errors.New\<close>. The string is the message.
\<close>

datatype go_error =
    NewRequestErr string
  | TransportErr string
  | ReadErr string
  | UnmarshalErr string
  | ErrorsNew string

text \<open>\<open>url.Values\<close> is \<open>map[string][]string\<close>; a nil map is \<open>None\<close>.\<close>

type_synonym Values = "(string \<times> string list) list"

text \<open>
  The struct types \<open>Job\<close>, \<open>Build\<close>, \<open>Item\<close>, \<open>Queue\<close>, \<open>MavenJobItem\<close>,
  \<open>ListView\<close> and \<open>Artifact\<close> are declared outside jenkins.go. Their values are
  the type parameter \<open>'v\<close>; \<open>shape\<close> names the struct type a pointer points to.
\<close>

datatype shape = JobsPayloadT | JobT | MavenJobItemT | BuildT | ItemT | QueueT

text \<open>
  A value of type \<open>interface{}\<close> as the callers build it: the nil interface, or a pointer
  with its dynamic type, itself nil (\<open>None\<close>) or pointing to a struct value.
\<close>

datatype 'v iface = NilIface | Ptr shape "'v option"

fun dyn_type :: "'v iface \<Rightarrow> shape option" where
  "dyn_type NilIface = None"
| "dyn_type (Ptr t p) = Some t"

record Auth =
  Username :: string
  ApiToken :: string

record Jenkins =
  auth :: "Auth option"
  baseUrl :: string

definition NewJenkins :: "Auth option \<Rightarrow> string \<Rightarrow> Jenkins" where
  "NewJenkins a b = \<lparr>auth = a, baseUrl = b\<rparr>"

record Request =
  Method :: string
  URL :: string
  ReqBody :: "string option"
  ReqHeader :: "(string \<times> string) list"
  BasicAuth :: "(string \<times> string) option"

text \<open>
  A response: \<open>Header\<close> is \<open>resp.Header.Get\<close> (the empty string for a missing header),
  \<open>Body\<close> is what \<open>ioutil.ReadAll(resp.Body)\<close> returns: the bytes and the error.
\<close>

record Response =
  StatusCode :: int
  Header :: "string \<Rightarrow> string"
  Body :: "string \<times> string option"

text \<open>
  What lies outside jenkins.go: the network (\<open>Do\<close> answers a request, given the requests
  sent before), the URL check of \<open>http.NewRequest\<close>, \<open>url.Values.Encode\<close>, the JSON and
  XML codecs (a decoder gets the bytes, the target's type and its current value, and returns
  the value it leaves in the target and its error), the zero value of each struct type and
  the struct fields the code reads.
\<close>

record 'v env =
  Do :: "Request list \<Rightarrow> Request \<Rightarrow> string + Response"
  NewRequest_err :: "string \<Rightarrow> string \<Rightarrow> string option"
  Encode :: "Values \<Rightarrow> string"
  json_Unmarshal :: "string \<Rightarrow> shape \<Rightarrow> 'v \<Rightarrow> 'v \<times> string option"
  xml_Unmarshal :: "string \<Rightarrow> shape \<Rightarrow> 'v \<Rightarrow> 'v \<times> string option"
  xml_Marshal :: "'v \<Rightarrow> string \<times> string option"
  zero :: "shape \<Rightarrow> 'v"
  Name :: "'v \<Rightarrow> string"
  Url :: "'v \<Rightarrow> string"
  RelativePath :: "'v \<Rightarrow> string"
  Jobs :: "'v \<Rightarrow> 'v"

text \<open>
  The state the methods run in: the client object the receiver points to, the requests
  handed to the network so far, the number of responses obtained (a response's handle is
  its number) and the handles whose body was closed, in order.
\<close>

record world =
  jenkins :: Jenkins
  sent :: "Request list"
  responses :: nat
  closed :: "nat list"

subsection \<open>strings.Split, strconv.Atoi, fmt.Sprintf\<close>

text \<open>\<open>strings.Split(s, sep)\<close> for a one-byte separator: one piece more than separators.\<close>

fun Split :: "string \<Rightarrow> char \<Rightarrow> string list" where
  "Split [] sep = ['''']"
| "Split (c # cs) sep =
     (if c = sep then '''' # Split cs sep
      else (case Split cs sep of [] \<Rightarrow> [c] # [] | p # ps \<Rightarrow> (c # p) # ps))"

definition digit_of :: "char \<Rightarrow> int option" where
  "digit_of = map_of
     [(CHR ''0'', 0), (CHR ''1'', 1), (CHR ''2'', 2), (CHR ''3'', 3), (CHR ''4'', 4),
      (CHR ''5'', 5), (CHR ''6'', 6), (CHR ''7'', 7), (CHR ''8'', 8), (CHR ''9'', 9)]"

fun digits_value :: "int \<Rightarrow> string \<Rightarrow> int option" where
  "digits_value n [] = Some n"
| "digits_value n (c # cs) =
     (case digit_of c of None \<Rightarrow> None | Some d \<Rightarrow> digits_value (n * 10 + d) cs)"

text \<open>
  \<open>strconv.Atoi\<close> on a 64-bit \<open>int\<close>: an optional sign and at least one decimal digit.
  On a syntax error it returns 0 and the error, on a range error the nearest bound.
\<close>

definition Atoi :: "string \<Rightarrow> int \<times> string option" where
  "Atoi s =
     (let neg = (case s of [] \<Rightarrow> False | c # r \<Rightarrow> c = CHR ''-'');
          ds = (case s of [] \<Rightarrow> [] | c # r \<Rightarrow> if c = CHR ''-'' \<or> c = CHR ''+'' then r else s)
      in if ds = [] then (0, Some ''invalid syntax'')
         else (case digits_value 0 ds of
                 None \<Rightarrow> (0, Some ''invalid syntax'')
               | Some n \<Rightarrow>
                   if neg then
                     (if 2 ^ 63 < n then (- (2 ^ 63), Some ''value out of range'')
                      else (- n, None))
                   else
                     (if 2 ^ 63 \<le> n then (2 ^ 63 - 1, Some ''value out of range'')
                      else (n, None))))"

definition digit_char :: "nat \<Rightarrow> char" where
  "digit_char d = ''0123456789'' ! (d mod 10)"

fun nat_dec :: "nat \<Rightarrow> string" where
  "nat_dec n = (if n < 10 then [digit_char n] else nat_dec (n div 10) @ [digit_char (n mod 10)])"

declare nat_dec.simps [simp del]

text \<open>\<open>%d\<close> applied to an \<open>int\<close>: the decimal rendering.\<close>

definition fmt_d :: "int \<Rightarrow> string" where
  "fmt_d n = (if n < 0 then CHR ''-'' # nat_dec (nat (- n)) else nat_dec (nat n))"

text \<open>
  \<open>%s\<close> applied to an \<open>int\<close>: the verb does not fit the operand, and \<open>fmt\<close> prints
  \<open>%!s(int=N)\<close>.
\<close>

definition fmt_s_int :: "int \<Rightarrow> string" where
  "fmt_s_int n = ''%!s(int='' @ fmt_d n @ '')''"

text \<open>
  \<open>json.Unmarshal(data, body)\<close> and \<open>xml.Unmarshal(data, body)\<close> on an interface value:
  a nil interface or a nil pointer is refused with an error; otherwise the decoder runs on
  the pointee. The first component is what the call leaves in the pointee, if it wrote.
\<close>

fun Unmarshal ::
  "(string \<Rightarrow> shape \<Rightarrow> 'v \<Rightarrow> 'v \<times> string option) \<Rightarrow> string \<Rightarrow> 'v iface \<Rightarrow> 'v option \<times> go_error option"
where
  "Unmarshal dec data NilIface = (None, Some (UnmarshalErr ''Unmarshal(nil)''))"
| "Unmarshal dec data (Ptr t None) = (None, Some (UnmarshalErr ''Unmarshal(nil pointer)''))"
| "Unmarshal dec data (Ptr t (Some v)) =
     (case dec data t v of (v', e) \<Rightarrow> (Some v', map_option UnmarshalErr e))"

text \<open>\<open>http.NewRequest(method, url, body)\<close>: fails when the URL does not parse.\<close>

definition NewRequest :: "'v env \<Rightarrow> string \<Rightarrow> string \<Rightarrow> string option \<Rightarrow> go_error + Request" where
  "NewRequest env method requestUrl body =
     (case NewRequest_err env method requestUrl of
        Some m \<Rightarrow> Inl (NewRequestErr m)
      | None \<Rightarrow> Inr \<lparr>Method = method, URL = requestUrl, ReqBody = body,
                      ReqHeader = [], BasicAuth = None\<rparr>)"

text \<open>\<open>resp.Body.Close()\<close> on the response with handle \<open>h\<close>.\<close>

definition Close :: "nat \<Rightarrow> world \<Rightarrow> world" where
  "Close h s = s\<lparr>closed := closed s @ [h]\<rparr>"

section \<open>The dispatch layer\<close>

definition buildUrl :: "'v env \<Rightarrow> string \<Rightarrow> Values option \<Rightarrow> world \<Rightarrow> string" where
  "buildUrl env path params s =
     (let requestUrl = baseUrl (jenkins s) @ path @ ''/api/json'' in
      case params of
        None \<Rightarrow> requestUrl
      | Some ps \<Rightarrow>
          (let queryString = Encode env ps in
           if queryString \<noteq> [] then requestUrl @ ''?'' @ queryString else requestUrl))"

text \<open>
  \<open>sendRequest\<close> reads the credentials through the pointer \<open>jenkins.auth\<close> (a nil pointer
  panics), sets the Basic authentication of the request and hands it to the network.
\<close>

definition sendRequest ::
  "'v env \<Rightarrow> Request \<Rightarrow> world \<Rightarrow> (go_error + nat \<times> Response) outcome \<times> world"
where
  "sendRequest env req s =
     (case auth (jenkins s) of
        None \<Rightarrow> (Panic ''invalid memory address or nil pointer dereference'', s)
      | Some a \<Rightarrow>
          (let req' = req\<lparr>BasicAuth := Some (Username a, ApiToken a)\<rparr> in
           case Do env (sent s) req' of
             Inl m \<Rightarrow> (Return (Inl (TransportErr m)), s\<lparr>sent := sent s @ [req']\<rparr>)
           | Inr resp \<Rightarrow>
               (Return (Inr (responses s, resp)),
                s\<lparr>sent := sent s @ [req'], responses := Suc (responses s)\<rparr>)))"

text \<open>
  The decoders return what they wrote into the caller's target (\<open>None\<close>: nothing) and the
  error. The deferred \<open>Close\<close> runs on every way out of the function.
\<close>

definition parseXmlResponse ::
  "'v env \<Rightarrow> nat \<times> Response \<Rightarrow> 'v iface \<Rightarrow> world \<Rightarrow> ('v option \<times> go_error option) outcome \<times> world"
where
  "parseXmlResponse env hr body s =
     (if body = NilIface then (Return (None, None), Close (fst hr) s)
      else
        (case Body (snd hr) of
           (data, Some m) \<Rightarrow> (Return (None, Some (ReadErr m)), Close (fst hr) s)
         | (data, None) \<Rightarrow> (Return (Unmarshal (xml_Unmarshal env) data body), Close (fst hr) s)))"

text \<open>
  A method with a named result \<open>x\<close> that passes \<open>&x\<close> as the target and returns
  \<open>(x, err)\<close>: \<open>x\<close> starts as the zero value \<open>z\<close> and holds what the callee wrote.
\<close>

definition named_result ::
  "'v \<Rightarrow> ('v option \<times> go_error option) outcome \<times> world \<Rightarrow> ('v \<times> go_error option) outcome \<times> world"
where
  "named_result z r =
     (case r of
        (Panic m, s') \<Rightarrow> (Panic m, s')
      | (Return (w, err), s') \<Rightarrow> (Return (case w of None \<Rightarrow> z | Some v \<Rightarrow> v, err), s'))"

text \<open>A method that returns only the error of the call it makes.\<close>

definition error_only ::
  "('v option \<times> go_error option) outcome \<times> world \<Rightarrow> (go_error option) outcome \<times> world"
where
  "error_only r =
     (case r of
        (Panic m, s') \<Rightarrow> (Panic m, s')
      | (Return (w, err), s') \<Rightarrow> (Return err, s'))"

text \<open>Line 77: \<open>itemNo, _ := strconv.Atoi(strings.Split(loc, "/")[5])\<close>.\<close>

definition locationItemNo :: "string \<Rightarrow> int outcome" where
  "locationItemNo loc =
     (let parts = Split loc CHR ''/'' in
      if 5 < length parts then Return (fst (Atoi (parts ! 5)))
      else Panic ''index out of range'')"

text \<open>
  \<open>parseResponse\<close>, \<open>get\<close> and \<open>GetQueueItem\<close> call each other: the redirect branch of
  \<open>parseResponse\<close> calls \<open>GetQueueItem\<close>. In that branch the result of \<open>GetQueueItem\<close> is
  assigned to the local \<open>body\<close>, so nothing is written into the caller's target.
\<close>

function parseResponse ::
    "'v env \<Rightarrow> nat \<times> Response \<Rightarrow> 'v iface \<Rightarrow> world \<Rightarrow> ('v option \<times> go_error option) outcome \<times> world"
  and get ::
    "'v env \<Rightarrow> string \<Rightarrow> Values option \<Rightarrow> 'v iface \<Rightarrow> world \<Rightarrow> ('v option \<times> go_error option) outcome \<times> world"
  and GetQueueItem ::
    "'v env \<Rightarrow> int \<Rightarrow> world \<Rightarrow> ('v \<times> go_error option) outcome \<times> world"
where
  "parseResponse env hr body s =
     (if body = NilIface then
        (if dyn_type body = Some ItemT then
           (let loc = Header (snd hr) ''Location'' in
            if loc \<noteq> [] then
              (case locationItemNo loc of
                 Panic m \<Rightarrow> (Panic m, Close (fst hr) s)
               | Return itemNo \<Rightarrow>
                   (case GetQueueItem env itemNo s of
                      (Panic m, s') \<Rightarrow> (Panic m, Close (fst hr) s')
                    | (Return (item, err), s') \<Rightarrow> (Return (None, err), Close (fst hr) s')))
            else (Return (None, None), Close (fst hr) s))
         else (Return (None, None), Close (fst hr) s))
      else
        (case Body (snd hr) of
           (data, Some m) \<Rightarrow> (Return (None, Some (ReadErr m)), Close (fst hr) s)
         | (data, None) \<Rightarrow> (Return (Unmarshal (json_Unmarshal env) data body), Close (fst hr) s)))"
| "get env path params body s =
     (let requestUrl = buildUrl env path params s in
      case NewRequest env ''GET'' requestUrl None of
        Inl e \<Rightarrow> (Return (None, Some e), s)
      | Inr req \<Rightarrow>
          (case sendRequest env req s of
             (Panic m, s') \<Rightarrow> (Panic m, s')
           | (Return (Inl e), s') \<Rightarrow> (Return (None, Some e), s')
           | (Return (Inr hr), s') \<Rightarrow> parseResponse env hr body s'))"
| "GetQueueItem env itemNo s =
     named_result (zero env ItemT)
       (get env (''/queue/item/'' @ fmt_s_int itemNo) None (Ptr ItemT (Some (zero env ItemT))) s)"
  by pat_completeness auto

termination
  by lexicographic_order

declare parseResponse.simps [simp del] get.simps [simp del] GetQueueItem.simps [simp del]

definition getXml ::
  "'v env \<Rightarrow> string \<Rightarrow> Values option \<Rightarrow> 'v iface \<Rightarrow> world \<Rightarrow> ('v option \<times> go_error option) outcome \<times> world"
where
  "getXml env path params body s =
     (let requestUrl = buildUrl env path params s in
      case NewRequest env ''GET'' requestUrl None of
        Inl e \<Rightarrow> (Return (None, Some e), s)
      | Inr req \<Rightarrow>
          (case sendRequest env req s of
             (Panic m, s') \<Rightarrow> (Panic m, s')
           | (Return (Inl e), s') \<Rightarrow> (Return (None, Some e), s')
           | (Return (Inr hr), s') \<Rightarrow> parseXmlResponse env hr body s'))"

definition post ::
  "'v env \<Rightarrow> string \<Rightarrow> Values option \<Rightarrow> 'v iface \<Rightarrow> world \<Rightarrow> ('v option \<times> go_error option) outcome \<times> world"
where
  "post env path params body s =
     (let requestUrl = buildUrl env path params s in
      case NewRequest env ''POST'' requestUrl None of
        Inl e \<Rightarrow> (Return (None, Some e), s)
      | Inr req \<Rightarrow>
          (case sendRequest env req s of
             (Panic m, s') \<Rightarrow> (Panic m, s')
           | (Return (Inl e), s') \<Rightarrow> (Return (None, Some e), s')
           | (Return (Inr hr), s') \<Rightarrow> parseResponse env hr body s'))"

text \<open>
  \<open>postXml\<close> builds its URL itself, adds the content type, and returns at a status code
  other than 200 before \<open>parseXmlResponse\<close> (which holds the deferred \<open>Close\<close>) is called.
\<close>

definition postXml ::
  "'v env \<Rightarrow> string \<Rightarrow> Values option \<Rightarrow> string option \<Rightarrow> 'v iface \<Rightarrow> world
     \<Rightarrow> ('v option \<times> go_error option) outcome \<times> world"
where
  "postXml env path params xmlBody body s =
     (let requestUrl = baseUrl (jenkins s) @ path;
          requestUrl =
            (case params of
               None \<Rightarrow> requestUrl
             | Some ps \<Rightarrow>
                 (let queryString = Encode env ps in
                  if queryString \<noteq> [] then requestUrl @ ''?'' @ queryString else requestUrl))
      in
      case NewRequest env ''POST'' requestUrl xmlBody of
        Inl e \<Rightarrow> (Return (None, Some e), s)
      | Inr req \<Rightarrow>
          (case sendRequest env
                  (req\<lparr>ReqHeader := ReqHeader req @ [(''Content-Type'', ''application/xml'')]\<rparr>) s of
             (Panic m, s') \<Rightarrow> (Panic m, s')
           | (Return (Inl e), s') \<Rightarrow> (Return (None, Some e), s')
           | (Return (Inr hr), s') \<Rightarrow>
               if StatusCode (snd hr) \<noteq> 200 then
                 (Return (None, Some (ErrorsNew
                    (''error: HTTP POST returned status code returned: '' @
                     fmt_d (StatusCode (snd hr))))), s')
               else parseXmlResponse env hr body s'))"

section \<open>The resource operations\<close>

definition GetJobs :: "'v env \<Rightarrow> world \<Rightarrow> ('v \<times> go_error option) outcome \<times> world" where
  "GetJobs env s =
     (case named_result (zero env JobsPayloadT)
             (get env [] None (Ptr JobsPayloadT (Some (zero env JobsPayloadT))) s) of
        (Panic m, s') \<Rightarrow> (Panic m, s')
      | (Return (payload, err), s') \<Rightarrow> (Return (Jobs env payload, err), s'))"

definition GetJob :: "'v env \<Rightarrow> string \<Rightarrow> world \<Rightarrow> ('v \<times> go_error option) outcome \<times> world" where
  "GetJob env name s =
     named_result (zero env JobT)
       (get env (''/job/'' @ name) None (Ptr JobT (Some (zero env JobT))) s)"

definition GetJobConfig :: "'v env \<Rightarrow> string \<Rightarrow> world \<Rightarrow> ('v \<times> go_error option) outcome \<times> world" where
  "GetJobConfig env name s =
     named_result (zero env MavenJobItemT)
       (getXml env (''/job/'' @ name @ ''/config.xml'') None
          (Ptr MavenJobItemT (Some (zero env MavenJobItemT))) s)"

definition GetBuild :: "'v env \<Rightarrow> 'v \<Rightarrow> int \<Rightarrow> world \<Rightarrow> ('v \<times> go_error option) outcome \<times> world" where
  "GetBuild env job number s =
     named_result (zero env BuildT)
       (get env (''/job/'' @ Name env job @ ''/'' @ fmt_d number) None
          (Ptr BuildT (Some (zero env BuildT))) s)"

text \<open>
  \<open>CreateJob\<close> and \<open>CreateView\<close> keep the bytes of \<open>xml.Marshal\<close> and drop its error
  (\<open>mavenJobItemXml, _ := xml.Marshal(mavenJobItem)\<close>).
\<close>

definition CreateJob :: "'v env \<Rightarrow> 'v \<Rightarrow> string \<Rightarrow> world \<Rightarrow> (go_error option) outcome \<times> world" where
  "CreateJob env mavenJobItem jobName s =
     (let mavenJobItemXml = fst (xml_Marshal env mavenJobItem);
          reader = Some mavenJobItemXml;
          params = Some [(''name'', [jobName])]
      in error_only (postXml env ''/createItem'' params reader NilIface s))"

definition AddJobToView :: "'v env \<Rightarrow> string \<Rightarrow> 'v \<Rightarrow> world \<Rightarrow> (go_error option) outcome \<times> world" where
  "AddJobToView env viewName job s =
     (let params = Some [(''name'', [Name env job])]
      in error_only (post env (''/view/'' @ viewName @ ''/addJobToView'') params NilIface s))"

definition CreateView :: "'v env \<Rightarrow> 'v \<Rightarrow> world \<Rightarrow> (go_error option) outcome \<times> world" where
  "CreateView env listView s =
     (let xmlListView = fst (xml_Marshal env listView);
          reader = Some xmlListView;
          params = Some [(''name'', [Name env listView])]
      in error_only (postXml env ''/createView'' params reader NilIface s))"

definition Build :: "'v env \<Rightarrow> 'v \<Rightarrow> Values option \<Rightarrow> world \<Rightarrow> ('v \<times> go_error option) outcome \<times> world" where
  "Build env job params s =
     (if params = None then
        named_result (zero env ItemT)
          (post env (''/job/'' @ Name env job @ ''/build'') params
             (Ptr ItemT (Some (zero env ItemT))) s)
      else
        named_result (zero env ItemT)
          (post env (''/job/'' @ Name env job @ ''/buildWithParameters'') params
             (Ptr ItemT (Some (zero env ItemT))) s))"

text \<open>The raw fetches return the bytes read (\<open>None\<close>: a nil slice) and the error.\<close>

definition raw_get :: "'v env \<Rightarrow> string \<Rightarrow> world \<Rightarrow> (string option \<times> go_error option) outcome \<times> world" where
  "raw_get env requestUrl s =
     (case NewRequest env ''GET'' requestUrl None of
        Inl e \<Rightarrow> (Return (None, Some e), s)
      | Inr req \<Rightarrow>
          (case sendRequest env req s of
             (Panic m, s') \<Rightarrow> (Panic m, s')
           | (Return (Inl e), s') \<Rightarrow> (Return (None, Some e), s')
           | (Return (Inr hr), s') \<Rightarrow>
               (case Body (snd hr) of
                  (data, e) \<Rightarrow> (Return (Some data, map_option ReadErr e), Close (fst hr) s'))))"

definition GetBuildConsoleOutput ::
  "'v env \<Rightarrow> 'v \<Rightarrow> world \<Rightarrow> (string option \<times> go_error option) outcome \<times> world"
where
  "GetBuildConsoleOutput env build s = raw_get env (Url env build @ ''/consoleText'') s"

definition GetQueue :: "'v env \<Rightarrow> world \<Rightarrow> ('v \<times> go_error option) outcome \<times> world" where
  "GetQueue env s =
     named_result (zero env QueueT)
       (get env ''/queue'' None (Ptr QueueT (Some (zero env QueueT))) s)"

definition GetArtifact ::
  "'v env \<Rightarrow> 'v \<Rightarrow> 'v \<Rightarrow> world \<Rightarrow> (string option \<times> go_error option) outcome \<times> world"
where
  "GetArtifact env build artifact s =
     raw_get env (Url env build @ ''/artifact/'' @ RelativePath env artifact) s"

text \<open>Every exported method as one call, and the world it leaves.\<close>

datatype 'v call =
    GetJobsCall
  | GetJobCall string
  | GetJobConfigCall string
  | GetBuildCall 'v int
  | CreateJobCall 'v string
  | AddJobToViewCall string 'v
  | CreateViewCall 'v
  | BuildCall 'v "Values option"
  | GetBuildConsoleOutputCall 'v
  | GetQueueCall
  | GetQueueItemCall int
  | GetArtifactCall 'v 'v

fun run :: "'v env \<Rightarrow> 'v call \<Rightarrow> world \<Rightarrow> world" where
  "run env GetJobsCall s = snd (GetJobs env s)"
| "run env (GetJobCall name) s = snd (GetJob env name s)"
| "run env (GetJobConfigCall name) s = snd (GetJobConfig env name s)"
| "run env (GetBuildCall job number) s = snd (GetBuild env job number s)"
| "run env (CreateJobCall mavenJobItem jobName) s = snd (CreateJob env mavenJobItem jobName s)"
| "run env (AddJobToViewCall viewName job) s = snd (AddJobToView env viewName job s)"
| "run env (CreateViewCall listView) s = snd (CreateView env listView s)"
| "run env (BuildCall job params) s = snd (Build env job params s)"
| "run env (GetBuildConsoleOutputCall build) s = snd (GetBuildConsoleOutput env build s)"
| "run env GetQueueCall s = snd (GetQueue env s)"
| "run env (GetQueueItemCall itemNo) s = snd (GetQueueItem env itemNo s)"
| "run env (GetArtifactCall build artifact) s = snd (GetArtifact env build artifact s)"

section \<open>Properties of a run\<close>

text \<open>The request as \<open>sendRequest\<close> hands it to the network.\<close>

definition authorize :: "Jenkins \<Rightarrow> Request \<Rightarrow> Request" where
  "authorize j req =
     (case auth j of None \<Rightarrow> req | Some a \<Rightarrow> req\<lparr>BasicAuth := Some (Username a, ApiToken a)\<rparr>)"

text \<open>The world after a round trip whose response body, if there is one, is closed.\<close>

definition finish :: "(go_error + nat \<times> Response) outcome \<times> world \<Rightarrow> world" where
  "finish r = (case r of (Return (Inr hr), s') \<Rightarrow> Close (fst hr) s' | (x, s') \<Rightarrow> s')"

text \<open>The URL \<open>postXml\<close> builds (lines 136 to 142).\<close>

definition postXml_url :: "'v env \<Rightarrow> string \<Rightarrow> Values option \<Rightarrow> world \<Rightarrow> string" where
  "postXml_url env path params s =
     (case params of
        None \<Rightarrow> baseUrl (jenkins s) @ path
      | Some ps \<Rightarrow>
          (if Encode env ps \<noteq> [] then baseUrl (jenkins s) @ path @ ''?'' @ Encode env ps
           else baseUrl (jenkins s) @ path))"

text \<open>
  A request carries the client's credentials; between two worlds the client is the same
  and every request added to the log carries them.
\<close>

definition authed :: "Jenkins \<Rightarrow> Request \<Rightarrow> bool" where
  "authed j r =
     (case auth j of None \<Rightarrow> False | Some a \<Rightarrow> BasicAuth r = Some (Username a, ApiToken a))"

definition sends_authed :: "world \<Rightarrow> world \<Rightarrow> bool" where
  "sends_authed s s' =
     (jenkins s' = jenkins s \<and>
      take (length (sent s)) (sent s') = sent s \<and>
      list_all (authed (jenkins s)) (drop (length (sent s)) (sent s')))"

text \<open>
  Between two worlds, every response obtained had its body closed once, in order, and
  nothing else was closed.
\<close>

definition bodies_released :: "world \<Rightarrow> world \<Rightarrow> bool" where
  "bodies_released s s' = (closed s' = closed s @ [responses s ..< responses s'])"

text \<open>
  An error that comes from building or sending the request, not from reading or decoding
  a body and not from a status check.
\<close>

fun transport_level :: "go_error option \<Rightarrow> bool" where
  "transport_level None = True"
| "transport_level (Some (NewRequestErr m)) = True"
| "transport_level (Some (TransportErr m)) = True"
| "transport_level (Some (ReadErr m)) = False"
| "transport_level (Some (UnmarshalErr m)) = False"
| "transport_level (Some (ErrorsNew m)) = False"

text \<open>A call that, if it returns, wrote nothing into a target and reports such an error only.\<close>

fun undecoded :: "('v option \<times> go_error option) outcome \<Rightarrow> bool" where
  "undecoded (Panic m) = True"
| "undecoded (Return (w, e)) = (w = None \<and> transport_level e)"

text \<open>
  A call that, if it returns, wrote nothing into a target and reports no error of reading
  or decoding a body.
\<close>

fun decode_error :: "go_error option \<Rightarrow> bool" where
  "decode_error (Some (ReadErr m)) = True"
| "decode_error (Some (UnmarshalErr m)) = True"
| "decode_error e = False"

fun decode_free :: "('v option \<times> go_error option) outcome \<Rightarrow> bool" where
  "decode_free (Panic m) = True"
| "decode_free (Return (w, e)) = (w = None \<and> decode_error e = False)"

section \<open>A test double for the outside world\<close>

definition start :: "Jenkins \<Rightarrow> world" where
  "start j = \<lparr>jenkins = j, sent = [], responses = 0, closed = []\<rparr>"

definition is_hex :: "char \<Rightarrow> bool" where
  "is_hex c = (c \<in> set ''0123456789abcdefABCDEF'')"

text \<open>\<open>url.Parse\<close> refuses a \<open>%\<close> that two hexadecimal digits do not follow.\<close>

fun bad_escape :: "string \<Rightarrow> bool" where
  "bad_escape [] = False"
| "bad_escape (c # cs) =
     (if c = CHR ''%'' then
        (case cs of
           a # b # r \<Rightarrow> (if is_hex a then (if is_hex b then bad_escape r else True) else True)
         | _ \<Rightarrow> True)
      else bad_escape cs)"

fun join_amp :: "string list \<Rightarrow> string" where
  "join_amp [] = []"
| "join_amp [x] = x"
| "join_amp (x # y # r) = x @ ''&'' @ join_amp (y # r)"

text \<open>\<open>url.Values.Encode\<close> on keys in order, for keys and values that need no escaping.\<close>

definition plain_Encode :: "Values \<Rightarrow> string" where
  "plain_Encode ps = join_amp (concat (map (\<lambda>(k, vs). map (\<lambda>v. k @ ''='' @ v) vs) ps))"

definition response :: "int \<Rightarrow> string \<Rightarrow> string \<Rightarrow> Response" where
  "response code location body =
     \<lparr>StatusCode = code, Header = (\<lambda>k. if k = ''Location'' then location else []),
      Body = (body, None)\<rparr>"

text \<open>
  Struct values are the text they were decoded from; both decoders fail on empty input,
  as \<open>json.Unmarshal\<close> and \<open>xml.Unmarshal\<close> do, and take any other.
\<close>

definition test_env :: "(Request list \<Rightarrow> Request \<Rightarrow> string + Response) \<Rightarrow> string env" where
  "test_env server =
     \<lparr>Do = server,
      NewRequest_err = (\<lambda>method u. if bad_escape u then Some ''invalid URL escape'' else None),
      Encode = plain_Encode,
      json_Unmarshal =
        (\<lambda>data t v. if data = [] then (v, Some ''unexpected end of JSON input'') else (data, None)),
      xml_Unmarshal = (\<lambda>data t v. if data = [] then (v, Some ''EOF'') else (data, None)),
      xml_Marshal = (\<lambda>v. (v, None)),
      zero = (\<lambda>t. []),
      Name = (\<lambda>v. v), Url = (\<lambda>v. v), RelativePath = (\<lambda>v. v), Jobs = (\<lambda>v. v)\<rparr>"

text \<open>
  A server that answers a build trigger with 201, an empty body and the location of queue
  item 42, and any GET with a queue item.
\<close>

definition queue_server :: "Request list \<Rightarrow> Request \<Rightarrow> string + Response" where
  "queue_server history req =
     (if Method req = ''POST'' then Inr (response 201 ''http://jenkins/queue/item/42/'' [])
      else Inr (response 200 [] ''{id:42}''))"

definition failing_server :: "Request list \<Rightarrow> Request \<Rightarrow> string + Response" where
  "failing_server history req = Inr (response 500 [] ''<html>Server Error</html>'')"

text \<open>A server that answers with 201, an empty body and the given location.\<close>

definition location_server :: "string \<Rightarrow> Request list \<Rightarrow> Request \<Rightarrow> string + Response" where
  "location_server loc history req = Inr (response 201 loc [])"

definition ok_server :: "Request list \<Rightarrow> Request \<Rightarrow> string + Response" where
  "ok_server history req = Inr (response 200 [] ''{}'')"

definition alice :: Jenkins where
  "alice = NewJenkins (Some \<lparr>Username = ''alice'', ApiToken = ''secret''\<rparr>) ''http://jenkins''"

section \<open>The decoders and the round trip\<close>

lemmas dispatch_splits = sum.splits option.splits prod.splits outcome.splits

lemmas test_defs =
  test_env_def queue_server_def failing_server_def location_server_def ok_server_def
  response_def alice_def
  NewJenkins_def start_def plain_Encode_def is_hex_def

text \<open>
  The redirect branch of \<open>parseResponse\<close> is dead: it sits under \<open>body == nil\<close>, and a nil
  interface has no dynamic type, so \<open>case *Item\<close> never matches.
\<close>

lemma parseResponse_nil:
  "parseResponse env hr NilIface s = (Return (None, None), Close (fst hr) s)"
  by (simp add: parseResponse.simps)

lemma parseResponse_ptr:
  "parseResponse env hr (Ptr t p) s =
     (case Body (snd hr) of
        (data, Some m) \<Rightarrow> (Return (None, Some (ReadErr m)), Close (fst hr) s)
      | (data, None) \<Rightarrow> (Return (Unmarshal (json_Unmarshal env) data (Ptr t p)), Close (fst hr) s))"
  by (simp add: parseResponse.simps)

lemma parseResponse_world: "snd (parseResponse env hr body s) = Close (fst hr) s"
  by (cases body) (auto simp: parseResponse_nil parseResponse_ptr split: prod.splits option.splits)

lemma parseXmlResponse_world: "snd (parseXmlResponse env hr body s) = Close (fst hr) s"
  by (auto simp: parseXmlResponse_def split: prod.splits option.splits)

lemmas code_defs =
  Build_def post_def postXml_def getXml_def get.simps GetQueueItem.simps raw_get_def
  GetJobConfig_def CreateJob_def CreateView_def AddJobToView_def GetBuildConsoleOutput_def
  named_result_def error_only_def buildUrl_def NewRequest_def sendRequest_def Close_def
  parseXmlResponse_def parseResponse_nil parseResponse_ptr Let_def

lemma sendRequest_cases:
  obtains
    (nil_auth) m where "auth (jenkins s) = None" "sendRequest env req s = (Panic m, s)"
  | (failed) a m where "auth (jenkins s) = Some a"
      "Do env (sent s) (authorize (jenkins s) req) = Inl m"
      "sendRequest env req s =
         (Return (Inl (TransportErr m)), s\<lparr>sent := sent s @ [authorize (jenkins s) req]\<rparr>)"
  | (answered) a resp where "auth (jenkins s) = Some a"
      "Do env (sent s) (authorize (jenkins s) req) = Inr resp"
      "sendRequest env req s =
         (Return (Inr (responses s, resp)),
          s\<lparr>sent := sent s @ [authorize (jenkins s) req], responses := Suc (responses s)\<rparr>)"
  by (cases "auth (jenkins s)"; cases "Do env (sent s) (authorize (jenkins s) req)")
     (auto simp: sendRequest_def authorize_def Let_def)

lemma finish_jenkins: "jenkins (finish (sendRequest env req s)) = jenkins s"
  by (cases rule: sendRequest_cases [of s env req]) (simp_all add: finish_def Close_def)

lemma finish_sent: "sent (finish (sendRequest env req s)) = sent (snd (sendRequest env req s))"
  by (cases rule: sendRequest_cases [of s env req]) (simp_all add: finish_def Close_def)

lemma sendRequest_jenkins: "jenkins (snd (sendRequest env req s)) = jenkins s"
  by (cases rule: sendRequest_cases [of s env req]) simp_all

lemma sendRequest_sent:
  "sent (snd (sendRequest env req s)) =
     (case auth (jenkins s) of None \<Rightarrow> sent s | Some a \<Rightarrow> sent s @ [authorize (jenkins s) req])"
  by (cases rule: sendRequest_cases [of s env req]) simp_all

lemma finish_released: "bodies_released s (finish (sendRequest env req s))"
  by (cases rule: sendRequest_cases [of s env req])
     (simp_all add: finish_def Close_def bodies_released_def)

lemma get_world:
  "snd (get env path params body s) =
     (case NewRequest env ''GET'' (buildUrl env path params s) None of
        Inl e \<Rightarrow> s
      | Inr req \<Rightarrow> finish (sendRequest env req s))"
  by (simp add: get.simps Let_def finish_def parseResponse_world split: dispatch_splits)

lemma post_world:
  "snd (post env path params body s) =
     (case NewRequest env ''POST'' (buildUrl env path params s) None of
        Inl e \<Rightarrow> s
      | Inr req \<Rightarrow> finish (sendRequest env req s))"
  by (simp add: post_def Let_def finish_def parseResponse_world split: dispatch_splits)

lemma getXml_world:
  "snd (getXml env path params body s) =
     (case NewRequest env ''GET'' (buildUrl env path params s) None of
        Inl e \<Rightarrow> s
      | Inr req \<Rightarrow> finish (sendRequest env req s))"
  by (simp add: getXml_def Let_def finish_def parseXmlResponse_world split: dispatch_splits)

lemma raw_get_world:
  "snd (raw_get env requestUrl s) =
     (case NewRequest env ''GET'' requestUrl None of
        Inl e \<Rightarrow> s
      | Inr req \<Rightarrow> finish (sendRequest env req s))"
  by (simp add: raw_get_def finish_def split: dispatch_splits)

lemma postXml_url:
  "(let requestUrl = baseUrl (jenkins s) @ path
    in case params of
         None \<Rightarrow> requestUrl
       | Some ps \<Rightarrow>
           (let queryString = Encode env ps in
            if queryString \<noteq> [] then requestUrl @ ''?'' @ queryString else requestUrl))
   = postXml_url env path params s"
  by (simp add: postXml_url_def Let_def split: option.splits)

lemma postXml_world:
  "snd (postXml env path params xmlBody body s) =
     (case NewRequest env ''POST'' (postXml_url env path params s) xmlBody of
        Inl e \<Rightarrow> s
      | Inr req \<Rightarrow>
          (case sendRequest env
                  (req\<lparr>ReqHeader := ReqHeader req @ [(''Content-Type'', ''application/xml'')]\<rparr>) s of
             (Return (Inr hr), s') \<Rightarrow> if StatusCode (snd hr) \<noteq> 200 then s' else Close (fst hr) s'
           | (r, s') \<Rightarrow> s'))"
proof (cases "NewRequest env ''POST'' (postXml_url env path params s) xmlBody")
  case (Inl e)
  then show ?thesis
    using postXml_url [of s path env params] by (simp add: postXml_def Let_def)
next
  case (Inr req)
  show ?thesis
    by (cases rule: sendRequest_cases
          [of s env "req\<lparr>ReqHeader := ReqHeader req @ [(''Content-Type'', ''application/xml'')]\<rparr>"])
       (use postXml_url [of s path env params] Inr in
          \<open>simp_all add: postXml_def Let_def parseXmlResponse_world\<close>)
qed

lemma named_result_world: "snd (named_result z r) = snd r"
  by (simp add: named_result_def split: dispatch_splits)

lemma error_only_world: "snd (error_only r) = snd r"
  by (simp add: error_only_def split: dispatch_splits)

lemma GetJobs_world:
  "snd (GetJobs env s) = snd (get env [] None (Ptr JobsPayloadT (Some (zero env JobsPayloadT))) s)"
  by (simp add: GetJobs_def named_result_def split: dispatch_splits)

section \<open>Authentication and the client object\<close>

lemma sends_authed_refl: "sends_authed s s"
  by (simp add: sends_authed_def)

lemma sends_authed_send: "sends_authed s (snd (sendRequest env req s))"
  by (simp add: sends_authed_def sendRequest_jenkins sendRequest_sent authed_def authorize_def
        split: option.splits)

lemma sends_authed_round_trip: "sends_authed s (finish (sendRequest env req s))"
  using sends_authed_send [of s env req]
  by (simp add: sends_authed_def finish_jenkins finish_sent sendRequest_jenkins)

lemma get_authed: "sends_authed s (snd (get env path params body s))"
  by (simp add: get_world sends_authed_refl sends_authed_round_trip split: sum.splits)

lemma post_authed: "sends_authed s (snd (post env path params body s))"
  by (simp add: post_world sends_authed_refl sends_authed_round_trip split: sum.splits)

lemma getXml_authed: "sends_authed s (snd (getXml env path params body s))"
  by (simp add: getXml_world sends_authed_refl sends_authed_round_trip split: sum.splits)

lemma raw_get_authed: "sends_authed s (snd (raw_get env requestUrl s))"
  by (simp add: raw_get_world sends_authed_refl sends_authed_round_trip split: sum.splits)

lemma postXml_authed: "sends_authed s (snd (postXml env path params xmlBody body s))"
proof (cases "NewRequest env ''POST'' (postXml_url env path params s) xmlBody")
  case (Inl e)
  then show ?thesis
    by (simp add: postXml_world sends_authed_refl)
next
  case (Inr req)
  let ?req = "req\<lparr>ReqHeader := ReqHeader req @ [(''Content-Type'', ''application/xml'')]\<rparr>"
  show ?thesis
    using sends_authed_send [of s env ?req]
    by (cases rule: sendRequest_cases [of s env ?req])
       (simp_all add: postXml_world Inr sends_authed_def Close_def)
qed

text \<open>
  C9: every request an operation hands to the network, the raw console and artifact fetches
  and the queue-item lookup included, carries the Basic authentication built from the
  client's username and token, and the operation leaves the client's credentials and base
  address as they were.
\<close>

theorem every_request_authenticated: "sends_authed s (run env c s)"
  by (cases c)
     (simp_all add: GetJobs_world GetJob_def GetJobConfig_def GetBuild_def CreateJob_def
        AddJobToView_def CreateView_def Build_def GetBuildConsoleOutput_def GetQueue_def
        GetQueueItem.simps GetArtifact_def Let_def named_result_world error_only_world
        get_authed post_authed getXml_authed raw_get_authed postXml_authed)

theorem every_request_authenticated_witness:
  "sends_authed (start alice)
     (run (test_env ok_server) (GetArtifactCall ''http://jenkins/job/foo/3'' ''out.jar'') (start alice))
   \<and> sent (run (test_env ok_server) (GetArtifactCall ''http://jenkins/job/foo/3'' ''out.jar'')
        (start alice)) =
       [\<lparr>Method = ''GET'', URL = ''http://jenkins/job/foo/3/artifact/out.jar'', ReqBody = None,
         ReqHeader = [], BasicAuth = Some (''alice'', ''secret'')\<rparr>]"
  using every_request_authenticated
    [of "start alice" "test_env ok_server" "GetArtifactCall ''http://jenkins/job/foo/3'' ''out.jar''"]
  by (simp add: GetArtifact_def code_defs test_defs)

section \<open>Which request an operation sends\<close>

lemma post_sent:
  assumes "auth (jenkins s) = Some a"
    and "NewRequest_err env ''POST'' (buildUrl env path params s) = None"
  shows "sent (snd (post env path params body s)) =
           sent s @ [\<lparr>Method = ''POST'', URL = buildUrl env path params s, ReqBody = None,
                      ReqHeader = [], BasicAuth = Some (Username a, ApiToken a)\<rparr>]"
  using assms
  by (simp add: post_world NewRequest_def finish_sent sendRequest_sent authorize_def)

lemma get_sent:
  assumes "auth (jenkins s) = Some a"
    and "NewRequest_err env ''GET'' (buildUrl env path params s) = None"
  shows "sent (snd (get env path params body s)) =
           sent s @ [\<lparr>Method = ''GET'', URL = buildUrl env path params s, ReqBody = None,
                      ReqHeader = [], BasicAuth = Some (Username a, ApiToken a)\<rparr>]"
  using assms
  by (simp add: get_world NewRequest_def finish_sent sendRequest_sent authorize_def)

lemma getXml_sent:
  assumes "auth (jenkins s) = Some a"
    and "NewRequest_err env ''GET'' (buildUrl env path params s) = None"
  shows "sent (snd (getXml env path params body s)) =
           sent s @ [\<lparr>Method = ''GET'', URL = buildUrl env path params s, ReqBody = None,
                      ReqHeader = [], BasicAuth = Some (Username a, ApiToken a)\<rparr>]"
  using assms
  by (simp add: getXml_world NewRequest_def finish_sent sendRequest_sent authorize_def)

lemma postXml_sent:
  assumes "auth (jenkins s) = Some a"
    and "NewRequest_err env ''POST'' (postXml_url env path params s) = None"
  shows "sent (snd (postXml env path params xmlBody body s)) =
           sent s @ [\<lparr>Method = ''POST'', URL = postXml_url env path params s, ReqBody = xmlBody,
                      ReqHeader = [(''Content-Type'', ''application/xml'')],
                      BasicAuth = Some (Username a, ApiToken a)\<rparr>]"
proof -
  let ?req = "\<lparr>Method = ''POST'', URL = postXml_url env path params s, ReqBody = xmlBody,
               ReqHeader = [(''Content-Type'', ''application/xml'')], BasicAuth = None\<rparr>"
  have new: "NewRequest env ''POST'' (postXml_url env path params s) xmlBody =
               Inr \<lparr>Method = ''POST'', URL = postXml_url env path params s, ReqBody = xmlBody,
                    ReqHeader = [], BasicAuth = None\<rparr>"
    using assms(2) by (simp add: NewRequest_def)
  show ?thesis
    using assms(1)
    by (cases rule: sendRequest_cases [of s env ?req])
       (simp_all add: postXml_world new Close_def authorize_def)
qed

text \<open>
  C7: with the client's credentials set and a URL that \<open>http.NewRequest\<close> accepts, a build
  triggered with a nil parameter map sends its POST to the path \<open>/job/{name}/build\<close>, and a
  build triggered with any non-nil map, the empty one included, to the path
  \<open>/job/{name}/buildWithParameters\<close>; the request builder then adds the suffix
  \<open>/api/json\<close> and the encoded query, if it is not empty.
\<close>

theorem Build_path_by_params:
  assumes "auth (jenkins s) = Some a"
  shows
    "(NewRequest_err env ''POST''
        (baseUrl (jenkins s) @ ''/job/'' @ Name env job @ ''/build'' @ ''/api/json'') = None \<longrightarrow>
      sent (snd (Build env job None s)) =
        sent s @
        [\<lparr>Method = ''POST'',
          URL = baseUrl (jenkins s) @ ''/job/'' @ Name env job @ ''/build'' @ ''/api/json'',
          ReqBody = None, ReqHeader = [], BasicAuth = Some (Username a, ApiToken a)\<rparr>]) \<and>
     (NewRequest_err env ''POST''
        (baseUrl (jenkins s) @ ''/job/'' @ Name env job @ ''/buildWithParameters'' @ ''/api/json'' @
         (if Encode env ps = [] then [] else ''?'' @ Encode env ps)) = None \<longrightarrow>
      sent (snd (Build env job (Some ps) s)) =
        sent s @
        [\<lparr>Method = ''POST'',
          URL = baseUrl (jenkins s) @ ''/job/'' @ Name env job @ ''/buildWithParameters'' @
                ''/api/json'' @ (if Encode env ps = [] then [] else ''?'' @ Encode env ps),
          ReqBody = None, ReqHeader = [], BasicAuth = Some (Username a, ApiToken a)\<rparr>])"
proof -
  have nil: "buildUrl env (''/job/'' @ Name env job @ ''/build'') None s =
               baseUrl (jenkins s) @ ''/job/'' @ Name env job @ ''/build'' @ ''/api/json''"
    by (simp add: buildUrl_def)
  have non_nil: "buildUrl env (''/job/'' @ Name env job @ ''/buildWithParameters'') (Some ps) s =
               baseUrl (jenkins s) @ ''/job/'' @ Name env job @ ''/buildWithParameters'' @
               ''/api/json'' @ (if Encode env ps = [] then [] else ''?'' @ Encode env ps)"
    by (simp add: buildUrl_def Let_def)
  show ?thesis
    using post_sent [OF assms, of env "''/job/'' @ Name env job @ ''/build''" None]
      post_sent [OF assms, of env "''/job/'' @ Name env job @ ''/buildWithParameters''" "Some ps"]
    unfolding nil non_nil
    by (simp add: Build_def named_result_world)
qed

theorem Build_path_by_params_witness:
  "sent (snd (Build (test_env queue_server) ''foo'' None (start alice))) =
     [\<lparr>Method = ''POST'', URL = ''http://jenkins/job/foo/build/api/json'', ReqBody = None,
       ReqHeader = [], BasicAuth = Some (''alice'', ''secret'')\<rparr>] \<and>
   sent (snd (Build (test_env queue_server) ''foo'' (Some []) (start alice))) =
     [\<lparr>Method = ''POST'', URL = ''http://jenkins/job/foo/buildWithParameters/api/json'',
       ReqBody = None, ReqHeader = [], BasicAuth = Some (''alice'', ''secret'')\<rparr>]"
  using Build_path_by_params
    [of "start alice" "\<lparr>Username = ''alice'', ApiToken = ''secret''\<rparr>" "test_env queue_server"
        "''foo''" "[]"]
  by (simp add: test_defs)

section \<open>Decoding into a nil target\<close>

lemma undecoded_round_trip:
  assumes "\<And>hr s'. parse hr s' = (Return (None, None), Close (fst hr) s')"
  shows "undecoded (fst (case NewRequest env method u xmlBody of
             Inl e \<Rightarrow> (Return (None, Some e), s)
           | Inr req \<Rightarrow>
               (case sendRequest env req s of
                  (Panic m, s') \<Rightarrow> (Panic m, s')
                | (Return (Inl e), s') \<Rightarrow> (Return (None, Some e), s')
                | (Return (Inr hr), s') \<Rightarrow> parse hr s')))"
proof (cases "NewRequest_err env method u")
  case (Some m)
  then show ?thesis
    by (simp add: NewRequest_def)
next
  case None
  let ?req = "\<lparr>Method = method, URL = u, ReqBody = xmlBody, ReqHeader = [], BasicAuth = None\<rparr>"
  show ?thesis
    by (cases rule: sendRequest_cases [of s env ?req]) (simp_all add: NewRequest_def None assms)
qed

lemma postXml_nil_decode_free:
  "decode_free (fst (postXml env path params xmlBody NilIface s))"
proof (cases "NewRequest_err env ''POST'' (postXml_url env path params s)")
  case (Some m)
  then show ?thesis
    using postXml_url [of s path env params] by (simp add: postXml_def NewRequest_def Let_def)
next
  case None
  let ?req = "\<lparr>Method = ''POST'', URL = postXml_url env path params s, ReqBody = xmlBody,
               ReqHeader = [(''Content-Type'', ''application/xml'')], BasicAuth = None\<rparr>"
  show ?thesis
    using postXml_url [of s path env params]
    by (cases rule: sendRequest_cases [of s env ?req])
       (simp_all add: postXml_def NewRequest_def None parseXmlResponse_def Let_def)
qed

text \<open>
  C8: a response decoded into a nil target, on the JSON path and on the XML path, is not
  read and not decoded: the decoder returns no error and writes nothing, and a call of
  \<open>get\<close>, \<open>post\<close> or \<open>getXml\<close> with a nil target reports no error or the error of building
  or sending the request, never one of reading or decoding; a call of \<open>postXml\<close> with a nil
  target, which may also report its status check, reports no error of reading or decoding.
\<close>

theorem nil_target_never_decodes:
  "parseResponse env hr NilIface s = (Return (None, None), Close (fst hr) s) \<and>
   parseXmlResponse env hr NilIface s = (Return (None, None), Close (fst hr) s) \<and>
   undecoded (fst (get env path params NilIface s)) \<and>
   undecoded (fst (post env path params NilIface s)) \<and>
   undecoded (fst (getXml env path params NilIface s)) \<and>
   decode_free (fst (postXml env path params xmlBody NilIface s))"
proof -
  have "decode_free (fst (postXml env path params xmlBody NilIface s))"
    by (rule postXml_nil_decode_free)
  moreover
  have json: "\<And>hr s'. parseResponse env hr NilIface s' = (Return (None, None), Close (fst hr) s')"
    by (rule parseResponse_nil)
  have xml: "\<And>hr s'. parseXmlResponse env hr NilIface s' = (Return (None, None), Close (fst hr) s')"
    by (simp add: parseXmlResponse_def)
  moreover have "undecoded (fst (get env path params NilIface s))"
    using undecoded_round_trip [where parse = "\<lambda>hr s'. parseResponse env hr NilIface s'", OF json]
    by (simp add: get.simps Let_def)
  moreover have "undecoded (fst (post env path params NilIface s))"
    using undecoded_round_trip [where parse = "\<lambda>hr s'. parseResponse env hr NilIface s'", OF json]
    by (simp add: post_def Let_def)
  moreover have "undecoded (fst (getXml env path params NilIface s))"
    using undecoded_round_trip [where parse = "\<lambda>hr s'. parseXmlResponse env hr NilIface s'", OF xml]
    by (simp add: getXml_def Let_def)
  ultimately show ?thesis
    using json xml by simp
qed

theorem nil_target_never_decodes_witness:
  "post (test_env failing_server) ''/view/nightly/addJobToView'' (Some [(''name'', [''foo''])])
     NilIface (start alice) =
     (Return (None, None),
      \<lparr>jenkins = alice,
       sent = [\<lparr>Method = ''POST'',
                URL = ''http://jenkins/view/nightly/addJobToView/api/json?name=foo'',
                ReqBody = None, ReqHeader = [], BasicAuth = Some (''alice'', ''secret'')\<rparr>],
       responses = 1, closed = [0]\<rparr>)"
  using nil_target_never_decodes
    [of "test_env failing_server" _ "start alice" "''/view/nightly/addJobToView''"
        "Some [(''name'', [''foo''])]"]
  by (simp add: code_defs test_defs)

section \<open>Creating jobs and views\<close>

lemma sendRequest_xml_Marshal:
  "sendRequest (env\<lparr>xml_Marshal := f\<rparr>) req s = sendRequest env req s"
  by (simp add: sendRequest_def Let_def cong: option.case_cong sum.case_cong)

lemma NewRequest_xml_Marshal:
  "NewRequest (env\<lparr>xml_Marshal := f\<rparr>) method u xmlBody = NewRequest env method u xmlBody"
  by (simp add: NewRequest_def)

lemma postXml_xml_Marshal:
  "postXml (env\<lparr>xml_Marshal := f\<rparr>) path params xmlBody NilIface s =
   postXml env path params xmlBody NilIface s"
  by (simp add: postXml_def sendRequest_xml_Marshal NewRequest_xml_Marshal parseXmlResponse_def
        Let_def cong: if_cong sum.case_cong option.case_cong prod.case_cong outcome.case_cong)

text \<open>
  C10: \<open>CreateJob\<close> and \<open>CreateView\<close> drop the error of \<open>xml.Marshal\<close>: whatever error the
  serialization reports, the outcome and the world are the same, and when the serialization
  fails, the bytes it returned (none, or a part) are posted as the request body all the same,
  with the client's credentials and a URL that \<open>http.NewRequest\<close> accepts.
\<close>

theorem marshal_error_discarded:
  "CreateJob (env\<lparr>xml_Marshal := (\<lambda>d. (fst (xml_Marshal env d), e d))\<rparr>) doc jobName s =
     CreateJob env doc jobName s \<and>
   CreateView (env\<lparr>xml_Marshal := (\<lambda>d. (fst (xml_Marshal env d), e d))\<rparr>) doc s =
     CreateView env doc s \<and>
   (xml_Marshal env doc = (payload, Some m) \<and> auth (jenkins s) = Some a \<and>
    NewRequest_err env ''POST'' (postXml_url env ''/createItem'' (Some [(''name'', [jobName])]) s)
      = None \<longrightarrow>
    sent (snd (CreateJob env doc jobName s)) =
      sent s @
      [\<lparr>Method = ''POST'',
        URL = postXml_url env ''/createItem'' (Some [(''name'', [jobName])]) s,
        ReqBody = Some payload, ReqHeader = [(''Content-Type'', ''application/xml'')],
        BasicAuth = Some (Username a, ApiToken a)\<rparr>]) \<and>
   (xml_Marshal env doc = (payload, Some m) \<and> auth (jenkins s) = Some a \<and>
    NewRequest_err env ''POST''
      (postXml_url env ''/createView'' (Some [(''name'', [Name env doc])]) s) = None \<longrightarrow>
    sent (snd (CreateView env doc s)) =
      sent s @
      [\<lparr>Method = ''POST'',
        URL = postXml_url env ''/createView'' (Some [(''name'', [Name env doc])]) s,
        ReqBody = Some payload, ReqHeader = [(''Content-Type'', ''application/xml'')],
        BasicAuth = Some (Username a, ApiToken a)\<rparr>])"
proof -
  have "CreateJob (env\<lparr>xml_Marshal := (\<lambda>d. (fst (xml_Marshal env d), e d))\<rparr>) doc jobName s =
          CreateJob env doc jobName s"
    by (simp add: CreateJob_def postXml_xml_Marshal)
  moreover have "CreateView (env\<lparr>xml_Marshal := (\<lambda>d. (fst (xml_Marshal env d), e d))\<rparr>) doc s =
          CreateView env doc s"
    by (simp add: CreateView_def postXml_xml_Marshal)
  ultimately show ?thesis
    by (simp add: CreateJob_def CreateView_def error_only_world postXml_sent)
qed

theorem marshal_error_discarded_witness:
  "sent (snd (CreateJob
       ((test_env ok_server)\<lparr>xml_Marshal := (\<lambda>d. ([], Some ''xml: unsupported type''))\<rparr>)
       ''job'' ''foo'' (start alice))) =
     [\<lparr>Method = ''POST'', URL = ''http://jenkins/createItem?name=foo'', ReqBody = Some [],
       ReqHeader = [(''Content-Type'', ''application/xml'')],
       BasicAuth = Some (''alice'', ''secret'')\<rparr>] \<and>
   fst (CreateJob
       ((test_env ok_server)\<lparr>xml_Marshal := (\<lambda>d. ([], Some ''xml: unsupported type''))\<rparr>)
       ''job'' ''foo'' (start alice)) = Return None"
  using marshal_error_discarded
    [of "(test_env ok_server)\<lparr>xml_Marshal := (\<lambda>d. ([], Some ''xml: unsupported type''))\<rparr>"
        _ "''job''" "''foo''" "start alice" "[]" "''xml: unsupported type''"
        "\<lparr>Username = ''alice'', ApiToken = ''secret''\<rparr>"]
  by (simp add: code_defs test_defs postXml_url_def)

section \<open>The redirect to a queue item\<close>

lemma parseResponse_ignores_header:
  "parseResponse env (h, r\<lparr>Header := f\<rparr>) body s = parseResponse env (h, r) body s"
  by (cases body)
     (simp_all add: parseResponse_nil parseResponse_ptr split: prod.splits option.splits)

lemma post_sends_one_POST_at_most:
  "sent (snd (post env path params body s)) = sent s \<or>
   (\<exists>r. sent (snd (post env path params body s)) = sent s @ [r] \<and> Method r = ''POST'')"
  by (cases "NewRequest_err env ''POST'' (buildUrl env path params s)")
     (simp_all add: post_world NewRequest_def finish_sent sendRequest_sent authorize_def
        split: option.splits)

lemma Build_sends_one_POST_at_most:
  "sent (snd (Build env job params s)) = sent s \<or>
   (\<exists>r. sent (snd (Build env job params s)) = sent s @ [r] \<and> Method r = ''POST'')"
  by (cases params) (simp_all add: Build_def named_result_world post_sends_one_POST_at_most)

text \<open>
  C1 says that a build trigger answered with an empty body and a \<open>Location\<close> header is
  resolved by a second GET of the queue item, whose content \<open>Build\<close> returns. The code
  does not do so. \<open>Build\<close> passes the non-nil pointer \<open>&item\<close>, and the branch that reads
  \<open>Location\<close> sits under \<open>body == nil\<close>: against a server that answers the trigger with
  201, an empty body and the location of queue item 42, \<open>Build\<close> sends the POST only,
  decodes the empty body and returns the zero item with the decoder's error.
\<close>

theorem Build_does_not_follow_Location:
  "Build (test_env queue_server) ''foo'' None (start alice) =
     (Return ([], Some (UnmarshalErr ''unexpected end of JSON input'')),
      \<lparr>jenkins = alice,
       sent = [\<lparr>Method = ''POST'', URL = ''http://jenkins/job/foo/build/api/json'',
                ReqBody = None, ReqHeader = [], BasicAuth = Some (''alice'', ''secret'')\<rparr>],
       responses = 1, closed = [0]\<rparr>)"
  by (simp add: code_defs test_defs)

lemma locationItemNo_short:
  "length (Split loc CHR ''/'') \<le> 5 \<Longrightarrow> locationItemNo loc = Panic ''index out of range''"
  by (simp add: locationItemNo_def Let_def)

lemma locationItemNo_syntax_error:
  "5 < length (Split loc CHR ''/'') \<Longrightarrow> Atoi (Split loc CHR ''/'' ! 5) = (0, Some m) \<Longrightarrow>
   locationItemNo loc = Return 0"
  by (simp add: locationItemNo_def Let_def)

text \<open>
  Line 77 on its own has no length check and drops the error of \<open>strconv.Atoi\<close>; it sits
  in the dead branch of \<open>parseResponse\<close> and never runs.
\<close>

lemma locationItemNo_eval:
  "locationItemNo ''http://jenkins/queue'' = Panic ''index out of range'' \<and>
   Atoi ''abc'' = (0, Some ''invalid syntax'') \<and>
   locationItemNo ''http://jenkins/queue/item/abc/'' = Return 0 \<and>
   locationItemNo ''http://jenkins/queue/item/42/'' = Return 42"
  by (simp add: locationItemNo_def Atoi_def digit_of_def)

lemma parseResponse_never_panics: "fst (parseResponse env hr body s) \<noteq> Panic m"
  by (cases body)
     (auto simp: parseResponse_nil parseResponse_ptr split: prod.splits option.splits)

lemma post_answered:
  assumes "auth (jenkins s) = Some a"
    and "NewRequest_err env ''POST'' (buildUrl env path params s) = None"
    and "Do env (sent s)
           \<lparr>Method = ''POST'', URL = buildUrl env path params s, ReqBody = None, ReqHeader = [],
            BasicAuth = Some (Username a, ApiToken a)\<rparr> = Inr resp"
  shows "post env path params body s =
           parseResponse env (responses s, resp) body
             (s\<lparr>sent := sent s @
                    [\<lparr>Method = ''POST'', URL = buildUrl env path params s, ReqBody = None,
                      ReqHeader = [], BasicAuth = Some (Username a, ApiToken a)\<rparr>],
                 responses := Suc (responses s)\<rparr>)"
  using assms by (simp add: post_def NewRequest_def sendRequest_def Let_def)

lemma parseResponse_empty_body:
  assumes "Body resp = ([], None)"
    and "json_Unmarshal env [] t v = (v', Some m)"
  shows "parseResponse env (h, resp) (Ptr t (Some v)) s =
           (Return (Some v', Some (UnmarshalErr m)), Close h s)"
  using assms by (simp add: parseResponse_ptr)

text \<open>
  C3: a build trigger is answered with an empty body and a \<open>Location\<close> header whose value
  has fewer pieces than the position the code expects, or a piece at that position that is
  not a number. With a JSON decoder that refuses empty input, as \<open>json.Unmarshal\<close> does, the
  decoder of the pending-item target returns that error and does not panic, and \<open>Build\<close>,
  with the client's credentials set and a URL that \<open>http.NewRequest\<close> accepts, returns the
  error to the caller after its one POST: no item is looked up under a defaulted number and
  none is returned without an error.
\<close>

theorem malformed_Location_reports_error:
  assumes "Header resp ''Location'' = loc"
    and "length (Split loc CHR ''/'') \<le> 5 \<or> snd (Atoi (Split loc CHR ''/'' ! 5)) \<noteq> None"
    and "Body resp = ([], None)"
    and "json_Unmarshal env [] ItemT (zero env ItemT) = (item, Some m)"
    and "auth (jenkins s) = Some a"
    and "req = \<lparr>Method = ''POST'',
                URL = buildUrl env
                        (''/job/'' @ Name env job @
                         (if params = None then ''/build'' else ''/buildWithParameters''))
                        params s,
                ReqBody = None, ReqHeader = [], BasicAuth = Some (Username a, ApiToken a)\<rparr>"
    and "NewRequest_err env ''POST'' (URL req) = None"
    and "Do env (sent s) req = Inr resp"
  shows
    "parseResponse env (h, resp) (Ptr ItemT (Some (zero env ItemT))) s' =
       (Return (Some item, Some (UnmarshalErr m)), Close h s') \<and>
     Build env job params s =
       (Return (item, Some (UnmarshalErr m)),
        s\<lparr>sent := sent s @ [req], responses := Suc (responses s),
          closed := closed s @ [responses s]\<rparr>)"
proof -
  have decoder: "parseResponse env (h', resp) (Ptr ItemT (Some (zero env ItemT))) s'' =
                   (Return (Some item, Some (UnmarshalErr m)), Close h' s'')" for h' s''
    using assms(3,4) by (rule parseResponse_empty_body)
  have "Build env job params s =
          (Return (item, Some (UnmarshalErr m)),
           s\<lparr>sent := sent s @ [req], responses := Suc (responses s),
             closed := closed s @ [responses s]\<rparr>)"
  proof (cases params)
    case None
    then show ?thesis
      using assms(5-8)
      by (simp add: Build_def named_result_def post_answered decoder Close_def)
  next
    case (Some ps)
    then show ?thesis
      using assms(5-8)
      by (simp add: Build_def named_result_def post_answered decoder Close_def)
  qed
  then show ?thesis
    using decoder by simp
qed

theorem malformed_Location_reports_error_witness:
  "Build (test_env (location_server ''http://jenkins/queue'')) ''foo'' None (start alice) =
     (Return ([], Some (UnmarshalErr ''unexpected end of JSON input'')),
      \<lparr>jenkins = alice,
       sent = [\<lparr>Method = ''POST'', URL = ''http://jenkins/job/foo/build/api/json'',
                ReqBody = None, ReqHeader = [], BasicAuth = Some (''alice'', ''secret'')\<rparr>],
       responses = 1, closed = [0]\<rparr>) \<and>
   Build (test_env (location_server ''http://jenkins/queue/item/abc/'')) ''foo'' None
       (start alice) =
     (Return ([], Some (UnmarshalErr ''unexpected end of JSON input'')),
      \<lparr>jenkins = alice,
       sent = [\<lparr>Method = ''POST'', URL = ''http://jenkins/job/foo/build/api/json'',
                ReqBody = None, ReqHeader = [], BasicAuth = Some (''alice'', ''secret'')\<rparr>],
       responses = 1, closed = [0]\<rparr>)"
  using
    malformed_Location_reports_error
      [of "response 201 ''http://jenkins/queue'' []" "''http://jenkins/queue''"
          "test_env (location_server ''http://jenkins/queue'')" "[]"
          "''unexpected end of JSON input''" "start alice"
          "\<lparr>Username = ''alice'', ApiToken = ''secret''\<rparr>"
          "\<lparr>Method = ''POST'', URL = ''http://jenkins/job/foo/build/api/json'', ReqBody = None,
            ReqHeader = [], BasicAuth = Some (''alice'', ''secret'')\<rparr>"
          "''foo''" None]
    malformed_Location_reports_error
      [of "response 201 ''http://jenkins/queue/item/abc/'' []" "''http://jenkins/queue/item/abc/''"
          "test_env (location_server ''http://jenkins/queue/item/abc/'')" "[]"
          "''unexpected end of JSON input''" "start alice"
          "\<lparr>Username = ''alice'', ApiToken = ''secret''\<rparr>"
          "\<lparr>Method = ''POST'', URL = ''http://jenkins/job/foo/build/api/json'', ReqBody = None,
            ReqHeader = [], BasicAuth = Some (''alice'', ''secret'')\<rparr>"
          "''foo''" None]
  by (simp add: test_defs buildUrl_def Atoi_def digit_of_def)

section \<open>The XML path\<close>

lemma GetJobConfig_sent:
  assumes "auth (jenkins s) = Some a"
    and "NewRequest_err env ''GET''
           (baseUrl (jenkins s) @ ''/job/'' @ name @ ''/config.xml'' @ ''/api/json'') = None"
  shows "sent (snd (GetJobConfig env name s)) =
           sent s @ [\<lparr>Method = ''GET'',
                      URL = baseUrl (jenkins s) @ ''/job/'' @ name @ ''/config.xml'' @ ''/api/json'',
                      ReqBody = None, ReqHeader = [],
                      BasicAuth = Some (Username a, ApiToken a)\<rparr>]"
  using getXml_sent [OF assms(1), of env "''/job/'' @ name @ ''/config.xml''" None] assms(2)
  by (simp add: GetJobConfig_def named_result_world buildUrl_def)

text \<open>
  C2 says that the URL of an XML-decoded resource, the job configuration fetch included, is
  base + path with no suffix. \<open>postXml\<close> builds such a URL, but \<open>getXml\<close> calls \<open>buildUrl\<close>,
  which appends \<open>/api/json\<close>: the configuration of job \<open>foo\<close> is requested from
  \<open>/job/foo/config.xml/api/json\<close>.
\<close>

theorem GetJobConfig_url_has_json_suffix:
  "sent (snd (GetJobConfig (test_env ok_server) ''foo'' (start alice))) =
     [\<lparr>Method = ''GET'', URL = ''http://jenkins/job/foo/config.xml/api/json'', ReqBody = None,
       ReqHeader = [], BasicAuth = Some (''alice'', ''secret'')\<rparr>]"
  by (simp add: code_defs test_defs)

lemma Unmarshal_error: "Unmarshal dec data body \<noteq> (w, Some (ErrorsNew m))"
  by (cases "(dec, data, body)" rule: Unmarshal.cases) (auto split: prod.splits)

lemma parseXmlResponse_no_status_error:
  "fst (parseXmlResponse env hr body s) \<noteq> Return (w, Some (ErrorsNew m))"
  by (auto simp: parseXmlResponse_def Unmarshal_error split: prod.splits option.splits)

lemma getXml_no_status_error:
  "fst (getXml env path params body s) \<noteq> Return (w, Some (ErrorsNew m))"
proof (cases "NewRequest_err env ''GET'' (buildUrl env path params s)")
  case (Some e)
  then show ?thesis
    by (simp add: getXml_def NewRequest_def)
next
  case None
  let ?req = "\<lparr>Method = ''GET'', URL = buildUrl env path params s, ReqBody = None,
               ReqHeader = [], BasicAuth = None\<rparr>"
  show ?thesis
    by (cases rule: sendRequest_cases [of s env ?req])
       (simp_all add: getXml_def NewRequest_def None parseXmlResponse_no_status_error)
qed

text \<open>
  C4 says that a non-2xx status on an XML-path call, the GET of a configuration document
  as well as the POST of a creation payload, gives a status failure that names the code, and
  that the body is not decoded. \<open>postXml\<close> checks the status; \<open>getXml\<close> does not: on a
  response with status 500 \<open>GetJobConfig\<close> decodes the error page as the job configuration
  and returns it with no error.
\<close>

theorem GetJobConfig_decodes_error_page:
  "fst (GetJobConfig (test_env failing_server) ''foo'' (start alice)) =
     Return (''<html>Server Error</html>'', None)"
  by (simp add: code_defs test_defs)

lemma parseResponse_ignores_status:
  "parseResponse env (h, r\<lparr>StatusCode := c\<rparr>) body s = parseResponse env (h, r) body s"
  by (cases body)
     (simp_all add: parseResponse_nil parseResponse_ptr split: prod.splits option.splits)

lemma postXml_status_failure:
  assumes "auth (jenkins s) = Some a"
    and "NewRequest_err env ''POST'' (postXml_url env path params s) = None"
    and "Do env (sent s)
           \<lparr>Method = ''POST'', URL = postXml_url env path params s, ReqBody = xmlBody,
            ReqHeader = [(''Content-Type'', ''application/xml'')],
            BasicAuth = Some (Username a, ApiToken a)\<rparr> = Inr resp"
    and "StatusCode resp \<noteq> 200"
  shows "fst (postXml env path params xmlBody body s) =
           Return (None, Some (ErrorsNew
             (''error: HTTP POST returned status code returned: '' @ fmt_d (StatusCode resp))))"
    and "closed (snd (postXml env path params xmlBody body s)) = closed s"
    and "responses (snd (postXml env path params xmlBody body s)) = Suc (responses s)"
  using assms postXml_url [of s path env params]
  by (simp_all add: postXml_def NewRequest_def sendRequest_def Let_def)

section \<open>Closing the response body\<close>

lemma get_released: "bodies_released s (snd (get env path params body s))"
  by (simp add: get_world finish_released split: sum.splits) (simp add: bodies_released_def)

lemma post_released: "bodies_released s (snd (post env path params body s))"
  by (simp add: post_world finish_released split: sum.splits) (simp add: bodies_released_def)

lemma getXml_released: "bodies_released s (snd (getXml env path params body s))"
  by (simp add: getXml_world finish_released split: sum.splits) (simp add: bodies_released_def)

lemma raw_get_released: "bodies_released s (snd (raw_get env requestUrl s))"
  by (simp add: raw_get_world finish_released split: sum.splits) (simp add: bodies_released_def)

text \<open>
  C5 says that every operation that obtains a response releases its body exactly once on
  every way out. The decoders and the raw fetches do, through a deferred \<open>Close\<close>;
  \<open>postXml\<close> does not: at a status code other than 200 it returns before
  \<open>parseXmlResponse\<close>, which holds the deferred \<open>Close\<close>, is called. \<open>CreateJob\<close> against
  a server that answers 500 obtains one response and closes none.
\<close>

theorem CreateJob_status_failure_leaves_body_open:
  "CreateJob (test_env failing_server) ''<project/>'' ''foo'' (start alice) =
     (Return (Some (ErrorsNew ''error: HTTP POST returned status code returned: 500'')),
      \<lparr>jenkins = alice,
       sent = [\<lparr>Method = ''POST'', URL = ''http://jenkins/createItem?name=foo'',
                ReqBody = Some ''<project/>'',
                ReqHeader = [(''Content-Type'', ''application/xml'')],
                BasicAuth = Some (''alice'', ''secret'')\<rparr>],
       responses = 1, closed = []\<rparr>)"
  by (simp add: code_defs test_defs fmt_d_def nat_dec.simps digit_char_def)

section \<open>The queue item lookup\<close>

lemma GetQueueItem_sent:
  assumes "auth (jenkins s) = Some a"
    and "NewRequest_err env ''GET''
           (baseUrl (jenkins s) @ ''/queue/item/%!s(int='' @ fmt_d itemNo @ '')/api/json'') = None"
  shows "sent (snd (GetQueueItem env itemNo s)) =
           sent s @ [\<lparr>Method = ''GET'',
                      URL = baseUrl (jenkins s) @ ''/queue/item/%!s(int='' @ fmt_d itemNo @
                            '')/api/json'',
                      ReqBody = None, ReqHeader = [],
                      BasicAuth = Some (Username a, ApiToken a)\<rparr>]"
  using get_sent [OF assms(1), of env "''/queue/item/'' @ fmt_s_int itemNo" None] assms(2)
  by (simp add: GetQueueItem.simps named_result_world buildUrl_def fmt_s_int_def)

text \<open>
  C6 says that \<open>GetQueueItem(n)\<close> requests the path \<open>/queue/item/{n}\<close> with \<open>n\<close> in decimal.
  The code formats the \<open>int\<close> with the verb \<open>%s\<close>, so the path of item 42 is
  \<open>/queue/item/%!s(int=42)\<close>. \<open>http.NewRequest\<close> refuses the escape \<open>%!s\<close> and no request
  is sent; if the URL were taken as it is, the request would go to that path.
\<close>

theorem GetQueueItem_path_is_malformed:
  "GetQueueItem (test_env ok_server) 42 (start alice) =
     (Return ([], Some (NewRequestErr ''invalid URL escape'')), start alice) \<and>
   sent (snd (GetQueueItem ((test_env ok_server)\<lparr>NewRequest_err := (\<lambda>method u. None)\<rparr>) 42
               (start alice))) =
     [\<lparr>Method = ''GET'', URL = ''http://jenkins/queue/item/%!s(int=42)/api/json'', ReqBody = None,
       ReqHeader = [], BasicAuth = Some (''alice'', ''secret'')\<rparr>]"
  by (simp add: code_defs test_defs fmt_s_int_def fmt_d_def nat_dec.simps digit_char_def)

end
